theory Spec2Isabelle
  imports Main "HOL-Library.AList"
begin

section \<open>JavaScript values\<close>

text \<open>
  The client of \<^verbatim>\<open>lib/api.js\<close> handles untyped data: request bodies, response bodies,
  status codes and header values. They are modelled by one datatype of values. An object is an
  association list read with \<open>map_of\<close> (the first binding of a key is the property), written
  with \<open>AList.update\<close> and deleted from with \<open>AList.delete\<close>. Numbers are integers: the
  client only tests them for truthiness and equality and never computes with them.
\<close>

datatype jsval =
    Undefined
  | Null
  | Bool bool
  | Num int
  | Str string
  | Arr "jsval list"
  | Obj "(string \<times> jsval) list"

datatype exn = TypeError | SyntaxError

text \<open>\<^verbatim>\<open>!!v\<close>: the values that count as true in a condition.\<close>

fun truthy :: "jsval \<Rightarrow> bool" where
  "truthy Undefined = False"
| "truthy Null = False"
| "truthy (Bool b) = b"
| "truthy (Num n) = (n \<noteq> 0)"
| "truthy (Str s) = (s \<noteq> [])"
| "truthy (Arr xs) = True"
| "truthy (Obj al) = True"

text \<open>\<^verbatim>\<open>v == null\<close>: true of \<^verbatim>\<open>null\<close> and \<^verbatim>\<open>undefined\<close> only.\<close>

fun nullish :: "jsval \<Rightarrow> bool" where
  "nullish Undefined = True"
| "nullish Null = True"
| "nullish v = False"

text \<open>
  \<^verbatim>\<open>v.k\<close> for the property names the client reads (\<^verbatim>\<open>_requestPrivKey\<close>, \<^verbatim>\<open>code\<close>,
  \<^verbatim>\<open>message\<close>, \<^verbatim>\<open>errors\<close>, \<^verbatim>\<open>length\<close>), none of which is an index or comes from a
  prototype. Reading a property of \<^verbatim>\<open>null\<close> or \<^verbatim>\<open>undefined\<close> throws a TypeError.
\<close>

fun getprop :: "jsval \<Rightarrow> string \<Rightarrow> exn + jsval" where
  "getprop Undefined k = Inl TypeError"
| "getprop Null k = Inl TypeError"
| "getprop (Bool b) k = Inr Undefined"
| "getprop (Num n) k = Inr Undefined"
| "getprop (Str s) k = Inr (if k = ''length'' then Num (int (length s)) else Undefined)"
| "getprop (Arr xs) k = Inr (if k = ''length'' then Num (int (length xs)) else Undefined)"
| "getprop (Obj al) k = Inr (case map_of al k of Some v \<Rightarrow> v | None \<Rightarrow> Undefined)"

text \<open>\<^verbatim>\<open>delete v[k]\<close>: removes the property of an object, and does nothing to another value.\<close>

fun delprop :: "jsval \<Rightarrow> string \<Rightarrow> jsval" where
  "delprop (Obj al) k = Obj (AList.delete k al)"
| "delprop v k = v"

text \<open>
  \<^verbatim>\<open>v == 0\<close>. For a string, an array or an object the comparison converts the operand to a
  number first; that conversion belongs to the language runtime and is the parameter \<open>conv\<close>.
\<close>

fun looseEqZero :: "(jsval \<Rightarrow> bool) \<Rightarrow> jsval \<Rightarrow> bool" where
  "looseEqZero conv Undefined = False"
| "looseEqZero conv Null = False"
| "looseEqZero conv (Bool b) = (\<not> b)"
| "looseEqZero conv (Num n) = (n = 0)"
| "looseEqZero conv v = conv v"

text \<open>The decimal digits of a natural number, as string concatenation writes a number.\<close>

fun digits :: "nat \<Rightarrow> string" where
  "digits n =
     (if n < 10 then [''0123456789'' ! n]
      else digits (n div 10) @ [''0123456789'' ! (n mod 10)])"

declare digits.simps [simp del]

text \<open>A number in a string concatenation (\<^verbatim>\<open>'r=' + n\<close>), for an integer \<open>n\<close>.\<close>

definition numToString :: "int \<Rightarrow> string" where
  "numToString i = (if i < 0 then CHR ''-'' # digits (nat (- i)) else digits (nat i))"

text \<open>\<^verbatim>\<open>s.indexOf(c)\<close>: the first position of \<open>c\<close> in \<open>s\<close>, or \<open>-1\<close>.\<close>

fun indexOf :: "string \<Rightarrow> char \<Rightarrow> int" where
  "indexOf [] c = - 1"
| "indexOf (x # xs) c =
     (if x = c then 0 else (let i = indexOf xs c in if i < 0 then - 1 else i + 1))"

section \<open>Data of the client\<close>

text \<open>
  The credentials a caller may attach to the client, the response object the transport hands
  to its callback (only \<^verbatim>\<open>statusCode\<close> and \<^verbatim>\<open>header\<close> are read), and the descriptor
  \<^verbatim>\<open>newArgs\<close> that \<^verbatim>\<open>_doRequest\<close> passes to the transport.
\<close>

record credentials =
  copayerId :: jsval
  requestPrivKey :: jsval

record response =
  statusCode :: jsval
  header :: jsval

record newArgs =
  relUrl :: string
  headers :: "(string \<times> jsval) list"
  "method" :: string
  url :: string
  body :: jsval
  json :: bool
  withCredentials :: bool
  req_timeout :: int

text \<open>
  The client object. \<^verbatim>\<open>this.request\<close> is the transport: it is given the descriptor and
  calls back once with \<^verbatim>\<open>(err, res, body)\<close>; an absent or falsy \<^verbatim>\<open>res\<close> is \<open>None\<close>.
\<close>

record client =
  verbose :: bool
  request :: "newArgs \<Rightarrow> jsval \<times> response option \<times> jsval"
  baseUrl :: string
  basePath :: string
  baseHost :: string
  timeout :: int
  credentials :: "credentials option"

text \<open>
  The registry \<^verbatim>\<open>Errors\<close> of \<^verbatim>\<open>./errors\<close> is an object that \<^verbatim>\<open>_parseError\<close> reads
  with a key the server chooses. The read finds nothing (or a falsy value), an error
  constructor, or a member that is not a constructor (an inherited \<^verbatim>\<open>toString\<close>, say), on
  which \<^verbatim>\<open>new\<close> throws a TypeError.
\<close>

datatype entry = Absent | Constructor | NotConstructor

text \<open>
  What the module takes from outside the file: \<^verbatim>\<open>JSON.parse\<close> (\<open>None\<close> when it throws), the
  registry \<^verbatim>\<open>Errors\<close>, \<^verbatim>\<open>Package.version\<close>, the function \<^verbatim>\<open>_.random\<close> of lodash (what
  it returns at this call for a lower and an upper bound), and the runtime's number conversion
  for \<^verbatim>\<open>== 0\<close>.
\<close>

record env =
  JSON_parse :: "string \<Rightarrow> jsval option"
  Errors :: "jsval \<Rightarrow> entry"
  Package_version :: string
  random :: "int \<Rightarrow> int \<Rightarrow> int"
  toNumberIsZero :: "jsval \<Rightarrow> bool"

text \<open>
  The first argument of the caller's callback, when it is not \<^verbatim>\<open>null\<close>:
  \<^verbatim>\<open>new Errors[k](args)\<close>, \<^verbatim>\<open>new Error(x)\<close>, or a bare string.
\<close>

datatype cb_error =
    ErrorsNew jsval "jsval list"
  | ErrorNew jsval
  | Message string

abbreviation CONNECTION_ERROR :: cb_error where
  "CONNECTION_ERROR \<equiv> ErrorsNew (Str ''CONNECTION_ERROR'') []"

abbreviation NOT_FOUND :: cb_error where
  "NOT_FOUND \<equiv> ErrorsNew (Str ''NOT_FOUND'') []"

abbreviation ECONNRESET_ERROR :: "jsval \<Rightarrow> cb_error" where
  "ECONNRESET_ERROR v \<equiv> ErrorsNew (Str ''ECONNRESET_ERROR'') [v]"

text \<open>
  What an operation does with the caller's callback: \<open>Callback e v h\<close> is the one call
  \<^verbatim>\<open>cb(e, v, h)\<close> (\<open>None\<close> for a \<^verbatim>\<open>null\<close> or missing error, \<open>Undefined\<close> for a missing
  argument); \<open>Throws x\<close> is an exception that leaves the function before any call of
  \<^verbatim>\<open>cb\<close>.
\<close>

datatype outcome =
    Callback "cb_error option" jsval jsval
  | Throws exn

definition API_VERSION :: string where
  "API_VERSION = ''v1''"

definition ECONNRESET_BODY :: string where
  \<open>ECONNRESET_BODY = ''{"error":"read ECONNRESET"}''\<close>

section \<open>Parsing an error body\<close>

text \<open>\<^verbatim>\<open>API._parseError\<close>; \<open>Inr None\<close> is the bare \<^verbatim>\<open>return\<close> on a falsy body.\<close>

definition parseError :: "env \<Rightarrow> jsval \<Rightarrow> exn + cb_error option" where
  "parseError E b =
     (if \<not> truthy b then Inr None
      else
        (let b' = (case b of
                     Str s \<Rightarrow> (case JSON_parse E s of
                                Some v \<Rightarrow> v
                              | None \<Rightarrow> Obj [(''error'', Str s)])
                   | _ \<Rightarrow> b)
         in case getprop b' ''code'' of
              Inl x \<Rightarrow> Inl x
            | Inr c \<Rightarrow>
                if truthy c then
                  (case Errors E c of
                     Constructor \<Rightarrow> Inr (Some (ErrorsNew c []))
                   | NotConstructor \<Rightarrow> Inl TypeError
                   | Absent \<Rightarrow> Inr (Some (ErrorNew c)))
                else
                  (case getprop b' ''message'' of
                     Inl x \<Rightarrow> Inl x
                   | Inr m \<Rightarrow> Inr (Some (ErrorNew (if truthy m then m else b'))))))"

section \<open>Headers\<close>

text \<open>
  \<^verbatim>\<open>API.prototype._getHeaders\<close>. It deletes \<^verbatim>\<open>_requestPrivKey\<close> from \<^verbatim>\<open>args\<close> in
  place, and \<^verbatim>\<open>_doRequest\<close> sends the same object as the body, so the function returns
  \<^verbatim>\<open>args\<close> as it has left them, with the headers or with the exception.

  The module never assigns \<^verbatim>\<open>API._signRequest\<close>: when a key resolves, the call
  \<^verbatim>\<open>API._signRequest(method, url, args, key)\<close> is a call of \<^verbatim>\<open>undefined\<close> and throws a
  TypeError, after the deletion. \<^verbatim>\<open>reqSignature\<close> is therefore \<^verbatim>\<open>undefined\<close> wherever the
  function gets as far as the headers.
\<close>

definition getHeaders ::
  "env \<Rightarrow> client \<Rightarrow> string \<Rightarrow> string \<Rightarrow> jsval \<Rightarrow>
     (exn \<times> jsval) + ((string \<times> jsval) list \<times> jsval)" where
  "getHeaders E self meth path args =
     (let hdrs = [(''x-client-version'', Str (''bwc-'' @ Package_version E))] in
      case credentials self of
        None \<Rightarrow> Inr (hdrs, args)
      | Some cr \<Rightarrow>
          (case getprop args ''_requestPrivKey'' of
             Inl x \<Rightarrow> Inl (x, args)
           | Inr k \<Rightarrow>
               (let key = (if truthy k then k else requestPrivKey cr) in
                if truthy key then Inl (TypeError, delprop args ''_requestPrivKey'')
                else
                  (let reqSignature = Undefined
                   in Inr (AList.update ''x-signature'' reqSignature
                             (AList.update ''x-identity'' (copayerId cr) hdrs),
                           args)))))"

section \<open>Dispatch and classification of the response\<close>

text \<open>
  The function \<^verbatim>\<open>_doRequest\<close> passes to the transport as its callback. The calls of the
  logger are left out: they do not change what reaches the caller's callback.
\<close>

definition response_callback :: "env \<Rightarrow> jsval \<Rightarrow> response option \<Rightarrow> jsval \<Rightarrow> outcome" where
  "response_callback E err res b =
     (case res of
        None \<Rightarrow> Callback (Some CONNECTION_ERROR) Undefined Undefined
      | Some r \<Rightarrow>
          if statusCode r \<noteq> Num 200 then
            (if statusCode r = Num 404 then Callback (Some NOT_FOUND) Undefined Undefined
             else if \<not> truthy (statusCode r) then
               Callback (Some CONNECTION_ERROR) Undefined Undefined
             else if \<not> truthy b then
               Callback (Some (ErrorNew (statusCode r))) Undefined Undefined
             else
               (case parseError E b of
                  Inl x \<Rightarrow> Throws x
                | Inr e \<Rightarrow> Callback e Undefined Undefined))
          else if b = Str ECONNRESET_BODY then
            (case JSON_parse E ECONNRESET_BODY of
               None \<Rightarrow> Throws SyntaxError
             | Some v \<Rightarrow> Callback (Some (ECONNRESET_ERROR v)) Undefined Undefined)
          else
            (case getprop b ''errors'' of
               Inl x \<Rightarrow> Throws x
             | Inr es \<Rightarrow>
                 if nullish es then Callback None b (header r)
                 else
                   (case getprop b ''message'' of
                      Inl x \<Rightarrow> Throws x
                    | Inr m \<Rightarrow>
                        if nullish m then Callback None b (header r)
                        else Callback (Some (ErrorNew m)) Undefined Undefined)))"

text \<open>
  \<^verbatim>\<open>API.prototype._doRequest\<close>. The result is the list of descriptors handed to the
  transport (the network calls made) and what happened to the caller's callback.
\<close>

definition doRequest ::
  "env \<Rightarrow> client \<Rightarrow> string \<Rightarrow> string \<Rightarrow> jsval \<Rightarrow> newArgs list \<times> outcome" where
  "doRequest E self meth path args =
     (let absUrl = baseUrl self @ ''/'' @ API_VERSION @ path in
      case getHeaders E self meth path args of
        Inl (x, args') \<Rightarrow> ([], Throws x)
      | Inr (hdrs, args') \<Rightarrow>
          (let na = \<lparr> relUrl = basePath self @ path, headers = hdrs, method = meth,
                       url = absUrl, body = args', json = True, withCredentials = False,
                       req_timeout = timeout self \<rparr>;
               (err, res, b) = request self na
           in ([na], response_callback E err res b)))"

definition doPostRequest :: "env \<Rightarrow> client \<Rightarrow> string \<Rightarrow> jsval \<Rightarrow> newArgs list \<times> outcome" where
  "doPostRequest E self path args = doRequest E self ''post'' path args"


text \<open>\<^verbatim>\<open>_doGetRequest\<close>.\<close>

definition doGetRequest :: "env \<Rightarrow> client \<Rightarrow> string \<Rightarrow> newArgs list \<times> outcome" where
  "doGetRequest E self path =
     (let path1 = path @ (if indexOf path (CHR ''?'') > 0 then ''&'' else ''?'');
          path2 = path1 @ ''r='' @ numToString (random E 10000 99999)
      in doRequest E self ''get'' path2 (Obj []))"


section \<open>Operations\<close>

definition getVersion :: "env \<Rightarrow> client \<Rightarrow> newArgs list \<times> outcome" where
  "getVersion E self = doGetRequest E self ''/version''"


text \<open>
  \<^verbatim>\<open>v == null || v.length == 0\<close>, the guard of the next two operations. The read of
  \<^verbatim>\<open>length\<close> is only reached for a value that is neither \<^verbatim>\<open>null\<close> nor
  \<^verbatim>\<open>undefined\<close>.
\<close>

definition missing :: "env \<Rightarrow> jsval \<Rightarrow> exn + bool" where
  "missing E v =
     (if nullish v then Inr True
      else (case getprop v ''length'' of
              Inl x \<Rightarrow> Inl x
            | Inr l \<Rightarrow> Inr (looseEqZero (toNumberIsZero E) l)))"

definition getTransactions ::
  "env \<Rightarrow> client \<Rightarrow> string \<Rightarrow> jsval \<Rightarrow> newArgs list \<times> outcome" where
  "getTransactions E self address txids =
     (case missing E txids of
        Inl x \<Rightarrow> ([], Throws x)
      | Inr True \<Rightarrow> ([], Callback None (Arr []) Undefined)
      | Inr False \<Rightarrow>
          doPostRequest E self ''/transactions''
            (Obj [(''address'', Str address), (''txids'', txids)]))"

definition getBvamInfo :: "env \<Rightarrow> client \<Rightarrow> jsval \<Rightarrow> newArgs list \<times> outcome" where
  "getBvamInfo E self assets =
     (case missing E assets of
        Inl x \<Rightarrow> ([], Throws x)
      | Inr True \<Rightarrow>
          ([], Callback (Some (Message ''Asset names were invalid'')) Undefined Undefined)
      | Inr False \<Rightarrow> doPostRequest E self ''/bvam/info'' (Obj [(''assets'', assets)]))"

definition addBvamData :: "env \<Rightarrow> client \<Rightarrow> jsval \<Rightarrow> newArgs list \<times> outcome" where
  "addBvamData E self bvamData =
     (if nullish bvamData then
        ([], Callback (Some (Message ''bvam data is required'')) Undefined Undefined)
      else doPostRequest E self ''/bvam'' (Obj [(''bvam'', bvamData)]))"

section \<open>The derivation of an error as the specification words it\<close>

text \<open>
  The specification derives the error of a failed response from the body alone: a string body
  is parsed, and a string that does not parse becomes the message; a \<^verbatim>\<open>code\<close> the
  registry knows gives that kind, another \<^verbatim>\<open>code\<close> a generic error with the code as
  message; without \<^verbatim>\<open>code\<close> the message is \<^verbatim>\<open>message\<close>, or the whole body. This
  definition follows those words, to be compared with \<open>response_callback\<close>.
\<close>

fun field :: "jsval \<Rightarrow> string \<Rightarrow> jsval option" where
  "field (Obj al) k = map_of al k"
| "field v k = None"

definition spec_error_of_structure :: "env \<Rightarrow> jsval \<Rightarrow> cb_error" where
  "spec_error_of_structure E v =
     (case field v ''code'' of
        Some c \<Rightarrow> (if Errors E c = Constructor then ErrorsNew c [] else ErrorNew c)
      | None \<Rightarrow> (case field v ''message'' of
                   Some m \<Rightarrow> ErrorNew m
                 | None \<Rightarrow> ErrorNew v))"

definition spec_error_of_body :: "env \<Rightarrow> jsval \<Rightarrow> cb_error" where
  "spec_error_of_body E b =
     (case b of
        Str s \<Rightarrow> (case JSON_parse E s of
                   None \<Rightarrow> ErrorNew (Str s)
                 | Some v \<Rightarrow> spec_error_of_structure E v)
      | _ \<Rightarrow> spec_error_of_structure E b)"

text \<open>The structure \<^verbatim>\<open>_parseError\<close> works on: the parsed string, or the body itself.\<close>

definition decoded :: "env \<Rightarrow> jsval \<Rightarrow> jsval \<Rightarrow> bool" where
  "decoded E b v = (case b of Str s \<Rightarrow> JSON_parse E s = Some v | _ \<Rightarrow> v = b)"

section \<open>A sample environment and sample clients\<close>

text \<open>
  Concrete collaborators at which the theorems below are instantiated: a parser that knows
  three strings, a registry with four kinds and the inherited \<^verbatim>\<open>toString\<close>, a random
  function that returns 12345 when the bounds allow it, and transports that answer every
  request with the same response.
\<close>

definition sample_parse :: "string \<Rightarrow> jsval option" where
  \<open>sample_parse s =
     map_of [(ECONNRESET_BODY, Obj [(''error'', Str ''read ECONNRESET'')]),
             (''{"code":"NOT_AUTHORIZED"}'', Obj [(''code'', Str ''NOT_AUTHORIZED'')]),
             (''{"code":"UNKNOWN_X"}'', Obj [(''code'', Str ''UNKNOWN_X'')])] s\<close>

definition sample_registry :: "jsval \<Rightarrow> entry" where
  "sample_registry c =
     (if c \<in> set [Str ''CONNECTION_ERROR'', Str ''NOT_FOUND'', Str ''ECONNRESET_ERROR'',
                   Str ''NOT_AUTHORIZED''] then Constructor
      else if c = Str ''toString'' then NotConstructor
      else Absent)"

definition sample_random :: "int \<Rightarrow> int \<Rightarrow> int" where
  "sample_random lower upper = max lower (min upper 12345)"

definition sample_zero :: "jsval \<Rightarrow> bool" where
  "sample_zero v = (v \<in> set [Str [], Str ''0'', Arr []])"

definition sample_env :: env where
  "sample_env = \<lparr> JSON_parse = sample_parse, Errors = sample_registry,
                   Package_version = ''1.0.0'', random = sample_random,
                   toNumberIsZero = sample_zero \<rparr>"

definition sample_reply :: "newArgs \<Rightarrow> jsval \<times> response option \<times> jsval" where
  "sample_reply na =
     (Null, Some \<lparr> statusCode = Num 200, header = Obj [(''etag'', Str ''1'')] \<rparr>,
      Obj [(''version'', Str ''1.0.0'')])"

definition empty_reply :: "newArgs \<Rightarrow> jsval \<times> response option \<times> jsval" where
  "empty_reply na = (Null, Some \<lparr> statusCode = Num 200, header = Obj [] \<rparr>, Undefined)"

definition sample_client :: client where
  "sample_client = \<lparr> verbose = False, request = sample_reply,
                      baseUrl = ''http://localhost:3232/counterparty/api'',
                      basePath = ''/counterparty/api'', baseHost = ''http://localhost:3232'',
                      timeout = 50000, credentials = None \<rparr>"

definition signed_client :: client where
  "signed_client =
     sample_client \<lparr> credentials :=
       Some \<lparr> copayerId = Str ''copayer-1'', requestPrivKey = Str ''key-1'' \<rparr> \<rparr>"

definition keyless_client :: client where
  "keyless_client =
     sample_client \<lparr> credentials :=
       Some \<lparr> copayerId = Str ''copayer-1'', requestPrivKey = Undefined \<rparr> \<rparr>"

definition empty_reply_client :: client where
  "empty_reply_client = sample_client \<lparr> request := empty_reply \<rparr>"

section \<open>Auxiliary facts\<close>

lemma getprop_not_nullish: "\<not> nullish v \<Longrightarrow> \<exists>k. getprop v p = Inr k"
  by (cases v) simp_all

text \<open>
  The three ways through \<^verbatim>\<open>_getHeaders\<close>: no credentials; credentials and no key that
  resolves; credentials and a key, where the call of \<^verbatim>\<open>API._signRequest\<close> throws.
\<close>

lemma getHeaders_no_credentials:
  assumes "credentials self = None"
  shows "getHeaders E self meth path args =
           Inr ([(''x-client-version'', Str (''bwc-'' @ Package_version E))], args)"
  using assms by (simp add: getHeaders_def)

lemma getHeaders_keyless:
  assumes "credentials self = Some cr" and "getprop args ''_requestPrivKey'' = Inr k"
    and "\<not> truthy k" and "\<not> truthy (requestPrivKey cr)"
  shows "getHeaders E self meth path args =
     Inr ([(''x-client-version'', Str (''bwc-'' @ Package_version E)),
           (''x-identity'', copayerId cr),
           (''x-signature'', Undefined)],
          args)"
  using assms by (simp add: getHeaders_def Let_def)

lemma getHeaders_keyed:
  assumes "credentials self = Some cr" and "getprop args ''_requestPrivKey'' = Inr k"
    and "truthy (if truthy k then k else requestPrivKey cr)"
  shows "getHeaders E self meth path args = Inl (TypeError, delprop args ''_requestPrivKey'')"
  using assms by (simp add: getHeaders_def Let_def)

lemma getHeaders_cases:
  assumes "credentials self = Some cr"
  shows "getHeaders E self meth path args = Inl (TypeError, args)
       \<or> getHeaders E self meth path args = Inl (TypeError, delprop args ''_requestPrivKey'')
       \<or> (getHeaders E self meth path args =
            Inr ([(''x-client-version'', Str (''bwc-'' @ Package_version E)),
                  (''x-identity'', copayerId cr),
                  (''x-signature'', Undefined)], args)
           \<and> (\<exists>k. getprop args ''_requestPrivKey'' = Inr k \<and> \<not> truthy k))"
proof (cases "getprop args ''_requestPrivKey''")
  case (Inl x)
  then have "x = TypeError" by (cases args) simp_all
  with Inl assms show ?thesis by (simp add: getHeaders_def)
next
  case (Inr k)
  show ?thesis
  proof (cases "truthy (if truthy k then k else requestPrivKey cr)")
    case True
    then show ?thesis using getHeaders_keyed [OF assms Inr] by simp
  next
    case False
    then have "\<not> truthy k" "\<not> truthy (requestPrivKey cr)" by (auto split: if_splits)
    then show ?thesis using getHeaders_keyless [OF assms Inr] Inr by simp
  qed
qed

text \<open>
  \<^verbatim>\<open>_doRequest\<close> hands one descriptor to the transport when \<^verbatim>\<open>_getHeaders\<close> returns, and
  none when it throws.
\<close>

lemma doRequest_sent:
  assumes "getHeaders E self meth path args = Inr (hdrs, args')"
  shows "fst (doRequest E self meth path args) =
     [\<lparr> relUrl = basePath self @ path, headers = hdrs, method = meth,
        url = baseUrl self @ ''/v1'' @ path, body = args', json = True,
        withCredentials = False, req_timeout = timeout self \<rparr>]"
  using assms by (simp add: doRequest_def Let_def API_VERSION_def split: prod.splits)

lemma doRequest_thrown:
  assumes "getHeaders E self meth path args = Inl (x, a)"
  shows "doRequest E self meth path args = ([], Throws x)"
  using assms by (simp add: doRequest_def Let_def)


lemma doRequest_dispatched_credentials:
  assumes "credentials self = Some cr" and "q \<in> set (fst (doRequest E self meth path args))"
  shows "map_of (headers q) ''x-identity'' = Some (copayerId cr) \<and> body q = args
         \<and> (\<exists>k. getprop args ''_requestPrivKey'' = Inr k \<and> \<not> truthy k)"
  using getHeaders_cases [OF assms(1), of E meth path args]
proof (elim disjE conjE)
  assume "getHeaders E self meth path args = Inl (TypeError, args)"
  from doRequest_thrown [OF this] assms(2) show ?thesis by simp
next
  assume "getHeaders E self meth path args = Inl (TypeError, delprop args ''_requestPrivKey'')"
  from doRequest_thrown [OF this] assms(2) show ?thesis by simp
next
  assume "getHeaders E self meth path args =
            Inr ([(''x-client-version'', Str (''bwc-'' @ Package_version E)),
                  (''x-identity'', copayerId cr),
                  (''x-signature'', Undefined)], args)"
    and k: "\<exists>k. getprop args ''_requestPrivKey'' = Inr k \<and> \<not> truthy k"
  from doRequest_sent [OF this(1)] assms(2) k show ?thesis by auto
qed







text \<open>
  A response with status 200 whose body is neither \<^verbatim>\<open>null\<close> nor \<^verbatim>\<open>undefined\<close> (both
  property reads succeed): the sentinel body first, then \<^verbatim>\<open>errors\<close> with
  \<^verbatim>\<open>message\<close>, and success otherwise.
\<close>

lemma status_200_classification:
  assumes "statusCode r = Num 200" and "JSON_parse E ECONNRESET_BODY = Some v"
    and "getprop b ''errors'' = Inr es" and "getprop b ''message'' = Inr m"
  shows "response_callback E err (Some r) b =
     (if b = Str ECONNRESET_BODY then Callback (Some (ECONNRESET_ERROR v)) Undefined Undefined
      else if nullish es then Callback None b (header r)
      else if nullish m then Callback None b (header r)
      else Callback (Some (ErrorNew m)) Undefined Undefined)"
  using assms by (simp add: response_callback_def)

text \<open>
  Three cases of \<^verbatim>\<open>_parseError\<close>: a string that does not parse is wrapped as
  \<^verbatim>\<open>{error: body}\<close>, and since \<^verbatim>\<open>message\<close> is what is read afterwards, the wrapper
  itself becomes the argument of \<^verbatim>\<open>new Error\<close>; a string that parses to \<^verbatim>\<open>null\<close> makes
  the read of \<^verbatim>\<open>code\<close> throw; a \<^verbatim>\<open>code\<close> that names a member of the registry that is
  not a constructor makes \<^verbatim>\<open>new\<close> throw.
\<close>

lemma parseError_unparsable:
  assumes "s \<noteq> []" and "JSON_parse E s = None"
  shows "parseError E (Str s) = Inr (Some (ErrorNew (Obj [(''error'', Str s)])))"
  using assms by (simp add: parseError_def)

lemma parseError_null:
  assumes "s \<noteq> []" and "JSON_parse E s = Some Null"
  shows "parseError E (Str s) = Inl TypeError"
  using assms by (simp add: parseError_def)

lemma parseError_not_constructor:
  assumes "map_of al ''code'' = Some c" and "truthy c" and "Errors E c = NotConstructor"
  shows "parseError E (Obj al) = Inl TypeError"
  using assms by (simp add: parseError_def)

text \<open>
  \<^verbatim>\<open>getBvamInfo\<close> and \<^verbatim>\<open>addBvamData\<close>: without their argument they call back with a
  message and send nothing, for every client; with it, a client without credentials sends one
  POST of the wrapped argument.
\<close>

lemma local_validation_no_request:
  "getBvamInfo E self Null =
     ([], Callback (Some (Message ''Asset names were invalid'')) Undefined Undefined)
   \<and> getBvamInfo E self Undefined =
     ([], Callback (Some (Message ''Asset names were invalid'')) Undefined Undefined)
   \<and> getBvamInfo E self (Arr []) =
     ([], Callback (Some (Message ''Asset names were invalid'')) Undefined Undefined)
   \<and> addBvamData E self Null =
     ([], Callback (Some (Message ''bvam data is required'')) Undefined Undefined)
   \<and> addBvamData E self Undefined =
     ([], Callback (Some (Message ''bvam data is required'')) Undefined Undefined)"
  by (simp add: getBvamInfo_def addBvamData_def missing_def)

lemma bvam_post_without_credentials:
  assumes "credentials self = None"
  shows "map (\<lambda>q. (method q, url q, body q)) (fst (getBvamInfo E self (Arr (x # xs)))) =
           [(''post'', baseUrl self @ ''/v1/bvam/info'', Obj [(''assets'', Arr (x # xs))])]"
    and "\<not> nullish bvamData \<Longrightarrow>
         map (\<lambda>q. (method q, url q, body q)) (fst (addBvamData E self bvamData)) =
           [(''post'', baseUrl self @ ''/v1/bvam'', Obj [(''bvam'', bvamData)])]"
  using doRequest_sent [OF getHeaders_no_credentials [OF assms]]
  by (simp_all add: getBvamInfo_def addBvamData_def missing_def doPostRequest_def)

section \<open>One outcome per operation\<close>

text \<open>
  C1. Every operation should end in exactly one call of the caller's callback, with a value
  or with an error. The code does not: when the transport answers with status 200 and no
  body, \<^verbatim>\<open>getVersion\<close> sends its request, the read of \<^verbatim>\<open>body.errors\<close> in the response
  callback throws a TypeError, and the caller's callback is never called.
\<close>

theorem getVersion_empty_reply_throws:
  "getVersion sample_env empty_reply_client =
     ([\<lparr> relUrl = ''/counterparty/api/version?r=12345'',
         headers = [(''x-client-version'', Str ''bwc-1.0.0'')],
         method = ''get'',
         url = ''http://localhost:3232/counterparty/api/v1/version?r=12345'',
         body = Obj [], json = True, withCredentials = False, req_timeout = 50000 \<rparr>],
      Throws TypeError)"
  by (simp add: getVersion_def doGetRequest_def doRequest_def getHeaders_def
      empty_reply_client_def sample_client_def sample_env_def empty_reply_def
      sample_random_def numToString_def
      response_callback_def API_VERSION_def digits.simps Let_def)

section \<open>Headers of a request\<close>

text \<open>
  C2. With credentials attached and a signing key that resolves, the construction of the
  headers should return the identity header and a signature of the method, the path and the
  body. The code does not: \<^verbatim>\<open>API._signRequest\<close> is called and never defined, so with an
  override key in the body, and with the key of the credentials, \<^verbatim>\<open>_getHeaders\<close> throws a
  TypeError once it has deleted \<^verbatim>\<open>_requestPrivKey\<close>, and an operation of such a client
  sends nothing and never calls back.
\<close>

theorem signing_call_throws:
  "getHeaders sample_env signed_client ''post'' ''/bvam''
       (Obj [(''_requestPrivKey'', Str ''key-2''), (''bvam'', Num 7)]) =
     Inl (TypeError, Obj [(''bvam'', Num 7)])
   \<and> getHeaders sample_env signed_client ''get'' ''/version?r=12345'' (Obj []) =
     Inl (TypeError, Obj [])
   \<and> getVersion sample_env signed_client = ([], Throws TypeError)"
  by (simp add: getVersion_def doGetRequest_def doRequest_def getHeaders_def
      signed_client_def sample_client_def Let_def)

text \<open>
  C7 as stated fails: with credentials that hold no key and a body without
  \<^verbatim>\<open>_requestPrivKey\<close>, the headers returned do have an entry \<^verbatim>\<open>x-signature\<close>; its value
  is \<^verbatim>\<open>undefined\<close>.
\<close>

theorem keyless_signature_entry_present:
  "getHeaders sample_env keyless_client ''post'' ''/bvam'' (Obj [(''bvam'', Num 7)]) =
     Inr ([(''x-client-version'', Str ''bwc-1.0.0''),
           (''x-identity'', Str ''copayer-1''),
           (''x-signature'', Undefined)],
          Obj [(''bvam'', Num 7)])
   \<and> ''x-signature'' \<in> dom (map_of [(''x-client-version'', Str ''bwc-1.0.0''),
                                     (''x-identity'', Str ''copayer-1''),
                                     (''x-signature'', Undefined)])"
  by (simp add: getHeaders_def keyless_client_def sample_client_def sample_env_def Let_def)

text \<open>
  C7, amended. With credentials attached and no signing key that resolves (the
  \<^verbatim>\<open>_requestPrivKey\<close> of the body and the key of the credentials are both falsy), the
  construction of the headers returns normally, no signature is computed, the body is left as
  it is, and the entry \<^verbatim>\<open>x-signature\<close> of the headers holds \<^verbatim>\<open>undefined\<close>.
\<close>

theorem keyless_headers:
  "credentials self = Some cr \<Longrightarrow> getprop args ''_requestPrivKey'' = Inr k \<Longrightarrow>
   \<not> truthy k \<Longrightarrow> \<not> truthy (requestPrivKey cr) \<Longrightarrow>
   getHeaders E self meth path args =
     Inr ([(''x-client-version'', Str (''bwc-'' @ Package_version E)),
           (''x-identity'', copayerId cr),
           (''x-signature'', Undefined)],
          args)"
  by (rule getHeaders_keyless)

theorem keyless_headers_witness:
  "getHeaders sample_env keyless_client ''get'' ''/version?r=12345'' (Obj []) =
     Inr ([(''x-client-version'', Str ''bwc-1.0.0''),
           (''x-identity'', Str ''copayer-1''),
           (''x-signature'', Undefined)],
          Obj [])"
  using keyless_headers
          [of keyless_client "\<lparr> copayerId = Str ''copayer-1'', requestPrivKey = Undefined \<rparr>"
              "Obj []" Undefined sample_env "''get''" "''/version?r=12345''"]
  by (simp add: keyless_client_def sample_client_def sample_env_def)

text \<open>
  C10. With credentials attached, the headers of every request that goes out hold the entry
  \<^verbatim>\<open>x-identity\<close> with the copayer id of the credentials; and when no signing key resolves,
  one request does go out, with that entry.
\<close>

theorem identity_header:
  "credentials self = Some cr \<Longrightarrow>
   (\<forall>q \<in> set (fst (doRequest E self meth path args)).
      map_of (headers q) ''x-identity'' = Some (copayerId cr))
   \<and> (getprop args ''_requestPrivKey'' = Inr k \<and> \<not> truthy k \<and> \<not> truthy (requestPrivKey cr)
      \<longrightarrow> map (\<lambda>q. map_of (headers q) ''x-identity'') (fst (doRequest E self meth path args)) =
            [Some (copayerId cr)])"
proof (intro conjI ballI impI)
  fix q
  assume "credentials self = Some cr" and "q \<in> set (fst (doRequest E self meth path args))"
  then show "map_of (headers q) ''x-identity'' = Some (copayerId cr)"
    using doRequest_dispatched_credentials by blast
next
  assume c: "credentials self = Some cr"
    and k: "getprop args ''_requestPrivKey'' = Inr k \<and> \<not> truthy k \<and> \<not> truthy (requestPrivKey cr)"
  from k have "getHeaders E self meth path args =
     Inr ([(''x-client-version'', Str (''bwc-'' @ Package_version E)),
           (''x-identity'', copayerId cr), (''x-signature'', Undefined)], args)"
    using getHeaders_keyless [OF c] by blast
  from doRequest_sent [OF this]
  show "map (\<lambda>q. map_of (headers q) ''x-identity'') (fst (doRequest E self meth path args)) =
          [Some (copayerId cr)]"
    by simp
qed

theorem identity_header_witness:
  "map (\<lambda>q. map_of (headers q) ''x-identity'')
     (fst (doRequest sample_env keyless_client ''post'' ''/bvam'' (Obj [(''bvam'', Num 7)]))) =
     [Some (Str ''copayer-1'')]"
  using identity_header
          [of keyless_client "\<lparr> copayerId = Str ''copayer-1'', requestPrivKey = Undefined \<rparr>"
              sample_env "''post''" "''/bvam''" "Obj [(''bvam'', Num 7)]" Undefined]
  by (simp add: keyless_client_def sample_client_def)

section \<open>The override key in the body\<close>

text \<open>
  C6 as stated fails: a client without credentials sends the body as it got it, with the
  entry \<^verbatim>\<open>_requestPrivKey\<close> still in it.
\<close>

theorem override_key_sent_without_credentials:
  "map body (fst (doRequest sample_env sample_client ''post'' ''/bvam''
       (Obj [(''_requestPrivKey'', Str ''key-2''), (''bvam'', Num 7)]))) =
     [Obj [(''_requestPrivKey'', Str ''key-2''), (''bvam'', Num 7)]]
   \<and> getprop (Obj [(''_requestPrivKey'', Str ''key-2''), (''bvam'', Num 7)])
         ''_requestPrivKey'' = Inr (Str ''key-2'')"
  by (simp add: doRequest_def getHeaders_def sample_client_def Let_def split: prod.splits)

text \<open>
  C6, amended. When credentials are attached and the body mapping holds a truthy override key
  under \<^verbatim>\<open>_requestPrivKey\<close>, \<^verbatim>\<open>_getHeaders\<close> leaves the body mapping without that entry,
  before anything is sent; no request that a client with credentials sends holds a truthy
  \<^verbatim>\<open>_requestPrivKey\<close> in its body. When no credentials are attached, the body is sent
  unchanged.
\<close>

theorem override_key_stripped:
  "(credentials self = Some cr \<and> map_of al ''_requestPrivKey'' = Some k \<and> truthy k \<longrightarrow>
      (case getHeaders E self meth path (Obj al) of
         Inl (x, args') \<Rightarrow> args'
       | Inr (hdrs, args') \<Rightarrow> args') = Obj (AList.delete ''_requestPrivKey'' al)
      \<and> map_of (AList.delete ''_requestPrivKey'' al) ''_requestPrivKey'' = None)
   \<and> (credentials self = Some cr \<longrightarrow>
      (\<forall>q \<in> set (fst (doRequest E self meth path args)).
         \<exists>v. getprop (body q) ''_requestPrivKey'' = Inr v \<and> \<not> truthy v))
   \<and> (credentials self = None \<longrightarrow>
      map body (fst (doRequest E self meth path args)) = [args])"
proof (intro conjI impI ballI)
  assume a: "credentials self = Some cr \<and> map_of al ''_requestPrivKey'' = Some k \<and> truthy k"
  then have k: "getprop (Obj al) ''_requestPrivKey'' = Inr k" by simp
  from a have c: "credentials self = Some cr" by simp
  from a have "getHeaders E self meth path (Obj al) =
                 Inl (TypeError, Obj (AList.delete ''_requestPrivKey'' al))"
    using getHeaders_keyed [OF c k] by simp
  then show "(case getHeaders E self meth path (Obj al) of
         Inl (x, args') \<Rightarrow> args'
       | Inr (hdrs, args') \<Rightarrow> args') = Obj (AList.delete ''_requestPrivKey'' al)"
    by simp
  show "map_of (AList.delete ''_requestPrivKey'' al) ''_requestPrivKey'' = None"
    by (simp add: delete_conv)
next
  fix q
  assume "credentials self = Some cr" and "q \<in> set (fst (doRequest E self meth path args))"
  then show "\<exists>v. getprop (body q) ''_requestPrivKey'' = Inr v \<and> \<not> truthy v"
    using doRequest_dispatched_credentials by blast
next
  assume "credentials self = None"
  from doRequest_sent [OF getHeaders_no_credentials [OF this]]
  show "map body (fst (doRequest E self meth path args)) = [args]"
    by simp
qed

theorem override_key_stripped_witness:
  "(case getHeaders sample_env signed_client ''post'' ''/bvam''
           (Obj [(''_requestPrivKey'', Str ''key-2''), (''bvam'', Num 7)]) of
      Inl (x, args') \<Rightarrow> args'
    | Inr (hdrs, args') \<Rightarrow> args') = Obj [(''bvam'', Num 7)]
   \<and> map body (fst (doRequest sample_env keyless_client ''post'' ''/bvam''
       (Obj [(''bvam'', Num 7)]))) = [Obj [(''bvam'', Num 7)]]
   \<and> map body (fst (doRequest sample_env sample_client ''post'' ''/bvam''
       (Obj [(''bvam'', Num 7)]))) = [Obj [(''bvam'', Num 7)]]"
  using override_key_stripped
          [of signed_client "\<lparr> copayerId = Str ''copayer-1'', requestPrivKey = Str ''key-1'' \<rparr>"
              "[(''_requestPrivKey'', Str ''key-2''), (''bvam'', Num 7)]" "Str ''key-2''"
              sample_env "''post''" "''/bvam''" "Obj []"]
        override_key_stripped
          [of sample_client "\<lparr> copayerId = Str ''copayer-1'', requestPrivKey = Str ''key-1'' \<rparr>"
              "[]" "Str ''key-2''" sample_env "''post''" "''/bvam''" "Obj [(''bvam'', Num 7)]"]
  by (simp add: signed_client_def sample_client_def keyless_client_def doRequest_def
      getHeaders_def Let_def split: prod.splits)

section \<open>Classification of the response\<close>

text \<open>
  C3. A response with status 200 should end in an error for the sentinel body and for a body
  with \<^verbatim>\<open>errors\<close> and \<^verbatim>\<open>message\<close>, and in success for every other body. The code does
  not for a body that is \<^verbatim>\<open>null\<close> or \<^verbatim>\<open>undefined\<close>: the read of \<^verbatim>\<open>body.errors\<close>
  throws a TypeError, and neither an error nor a value is delivered.
\<close>

theorem status_200_without_body_throws:
  "response_callback E err (Some \<lparr> statusCode = Num 200, header = h \<rparr>) Null =
     Throws TypeError
   \<and> response_callback E err (Some \<lparr> statusCode = Num 200, header = h \<rparr>) Undefined =
     Throws TypeError"
  by (simp add: response_callback_def)

text \<open>
  C4. The classification yields CONNECTION_ERROR when no response object was received, and
  when a response is there but its status code is falsy; it yields NOT_FOUND when the status
  code is 404, whatever the body. The test for a missing response comes first: without a
  response no status code is looked at.
\<close>

theorem classify_connection_error_not_found:
  "response_callback E err None b = Callback (Some CONNECTION_ERROR) Undefined Undefined
   \<and> (\<not> truthy (statusCode r) \<longrightarrow>
        response_callback E err (Some r) b =
          Callback (Some CONNECTION_ERROR) Undefined Undefined)
   \<and> (statusCode r' = Num 404 \<longrightarrow>
        response_callback E err (Some r') b = Callback (Some NOT_FOUND) Undefined Undefined)"
  by (auto simp: response_callback_def)

theorem classify_connection_error_not_found_witness:
  "response_callback sample_env Null None (Obj []) =
     Callback (Some CONNECTION_ERROR) Undefined Undefined
   \<and> response_callback sample_env Null
         (Some \<lparr> statusCode = Undefined, header = Obj [] \<rparr>) (Obj []) =
       Callback (Some CONNECTION_ERROR) Undefined Undefined
   \<and> response_callback sample_env Null
         (Some \<lparr> statusCode = Num 404, header = Obj [] \<rparr>) (Str ''{}'') =
       Callback (Some NOT_FOUND) Undefined Undefined"
  using classify_connection_error_not_found
          [of sample_env Null "Obj []" "\<lparr> statusCode = Undefined, header = Obj [] \<rparr>"
              "\<lparr> statusCode = Num 404, header = Obj [] \<rparr>"]
        classify_connection_error_not_found
          [of sample_env Null "Str ''{}''" "\<lparr> statusCode = Undefined, header = Obj [] \<rparr>"
              "\<lparr> statusCode = Num 404, header = Obj [] \<rparr>"]
  by simp

text \<open>
  C5 as stated fails: for status 500 and no body, the error the caller gets is built from the
  status code, not from the body as the derivation of the specification has it.
\<close>

theorem error_from_body_counterexample:
  "truthy (Num 500)
   \<and> response_callback sample_env Null
         (Some \<lparr> statusCode = Num 500, header = Obj [] \<rparr>) Undefined =
       Callback (Some (ErrorNew (Num 500))) Undefined Undefined
   \<and> spec_error_of_body sample_env Undefined = ErrorNew Undefined
   \<and> response_callback sample_env Null
         (Some \<lparr> statusCode = Num 500, header = Obj [] \<rparr>) Undefined \<noteq>
       Callback (Some (spec_error_of_body sample_env Undefined)) Undefined Undefined"
  by (simp add: response_callback_def spec_error_of_body_def spec_error_of_structure_def)

text \<open>
  C5, amended. For a response with a truthy status code other than 200 and 404: a falsy body
  gives a generic error whose message is the status code. Otherwise a string body is parsed
  first, and when the structure at hand (the parsed string, or the body itself when it is not
  a string) is not \<^verbatim>\<open>null\<close>: a truthy \<^verbatim>\<open>code\<close> under which the registry holds an error
  constructor gives that kind; a truthy \<^verbatim>\<open>code\<close> under which the registry holds nothing
  gives a generic error whose message is the code; a falsy or missing \<^verbatim>\<open>code\<close> gives a
  generic error with \<^verbatim>\<open>message\<close> when that is truthy, and with the whole structure
  otherwise.
\<close>

theorem error_from_body:
  "truthy (statusCode r) \<Longrightarrow> statusCode r \<noteq> Num 200 \<Longrightarrow> statusCode r \<noteq> Num 404 \<Longrightarrow>
   (\<not> truthy b \<longrightarrow>
      response_callback E err (Some r) b =
        Callback (Some (ErrorNew (statusCode r))) Undefined Undefined)
   \<and> (truthy b \<and> decoded E b v \<and> getprop v ''code'' = Inr c \<and> truthy c
        \<and> Errors E c = Constructor
      \<longrightarrow> response_callback E err (Some r) b =
            Callback (Some (ErrorsNew c [])) Undefined Undefined)
   \<and> (truthy b \<and> decoded E b v \<and> getprop v ''code'' = Inr c \<and> truthy c
        \<and> Errors E c = Absent
      \<longrightarrow> response_callback E err (Some r) b =
            Callback (Some (ErrorNew c)) Undefined Undefined)
   \<and> (truthy b \<and> decoded E b v \<and> getprop v ''code'' = Inr c \<and> \<not> truthy c
        \<and> getprop v ''message'' = Inr m
      \<longrightarrow> response_callback E err (Some r) b =
            Callback (Some (ErrorNew (if truthy m then m else v))) Undefined Undefined)"
  by (cases b) (auto simp: response_callback_def parseError_def decoded_def Let_def)

theorem error_from_body_witness:
  \<open>response_callback sample_env Null
       (Some \<lparr> statusCode = Num 500, header = Obj [] \<rparr>) (Str []) =
     Callback (Some (ErrorNew (Num 500))) Undefined Undefined
   \<and> response_callback sample_env Null
       (Some \<lparr> statusCode = Num 401, header = Obj [] \<rparr>) (Str ''{"code":"NOT_AUTHORIZED"}'') =
     Callback (Some (ErrorsNew (Str ''NOT_AUTHORIZED'') [])) Undefined Undefined
   \<and> response_callback sample_env Null
       (Some \<lparr> statusCode = Num 401, header = Obj [] \<rparr>) (Str ''{"code":"UNKNOWN_X"}'') =
     Callback (Some (ErrorNew (Str ''UNKNOWN_X''))) Undefined Undefined
   \<and> response_callback sample_env Null
       (Some \<lparr> statusCode = Num 500, header = Obj [] \<rparr>)
       (Obj [(''message'', Str ''bad input'')]) =
     Callback (Some (ErrorNew (Str ''bad input''))) Undefined Undefined
   \<and> response_callback sample_env Null
       (Some \<lparr> statusCode = Num 500, header = Obj [] \<rparr>) (Obj [(''detail'', Num 1)]) =
     Callback (Some (ErrorNew (Obj [(''detail'', Num 1)]))) Undefined Undefined\<close>
  using error_from_body
          [of "\<lparr> statusCode = Num 500, header = Obj [] \<rparr>" "Str []" sample_env Null
              Undefined Undefined Undefined]
        error_from_body
          [of "\<lparr> statusCode = Num 401, header = Obj [] \<rparr>"
              \<open>Str ''{"code":"NOT_AUTHORIZED"}''\<close> sample_env Null
              "Obj [(''code'', Str ''NOT_AUTHORIZED'')]" "Str ''NOT_AUTHORIZED''" Undefined]
        error_from_body
          [of "\<lparr> statusCode = Num 401, header = Obj [] \<rparr>"
              \<open>Str ''{"code":"UNKNOWN_X"}''\<close> sample_env Null
              "Obj [(''code'', Str ''UNKNOWN_X'')]" "Str ''UNKNOWN_X''" Undefined]
        error_from_body
          [of "\<lparr> statusCode = Num 500, header = Obj [] \<rparr>"
              "Obj [(''message'', Str ''bad input'')]" sample_env Null
              "Obj [(''message'', Str ''bad input'')]" Undefined "Str ''bad input''"]
        error_from_body
          [of "\<lparr> statusCode = Num 500, header = Obj [] \<rparr>" "Obj [(''detail'', Num 1)]"
              sample_env Null "Obj [(''detail'', Num 1)]" Undefined Undefined]
  by (simp add: decoded_def sample_env_def sample_parse_def sample_registry_def
      ECONNRESET_BODY_def)

section \<open>Requests of the operations\<close>

text \<open>
  C8. \<^verbatim>\<open>getBvamInfo\<close> and \<^verbatim>\<open>addBvamData\<close> should call back with a local validation
  error and send nothing when their argument is missing, and POST the wrapped argument
  otherwise. The first half holds (\<open>local_validation_no_request\<close>). The second does not for
  a client whose credentials hold a key: \<^verbatim>\<open>_getHeaders\<close> throws at the call of
  \<^verbatim>\<open>API._signRequest\<close>, no POST is sent and the callback is never called.
\<close>

theorem bvam_post_with_key_throws:
  "getBvamInfo sample_env signed_client (Arr [Str ''TOKENLY'']) = ([], Throws TypeError)
   \<and> addBvamData sample_env signed_client (Obj [(''asset'', Str ''TOKENLY'')]) =
       ([], Throws TypeError)"
  by (simp add: getBvamInfo_def addBvamData_def missing_def doPostRequest_def doRequest_def
      getHeaders_def signed_client_def sample_client_def Let_def)



end
